theory Spec2Isabelle
  imports Main "HOL-Library.Word" "HOL-Library.Signed_Division"
begin

unbundle bit_operations_syntax

section \<open>Machine types\<close>

text \<open>
  Modelled from the spec: the header \<open>tonc_types.hpp\<close> with the integer typedefs is not
  part of the sources at hand. The spec fixes \<open>FIXED\<close> as a 32-bit signed integer with 8
  fractional bits; \<open>u32\<close>/\<open>uint\<close> are the unsigned 32-bit type, \<open>s16\<close> and \<open>s64\<close> the
  signed 16- and 64-bit types, and \<open>int\<close> is 32 bits wide on the target.

  A machine integer is a word; whether it is signed or unsigned only shows in the
  operations applied to it (\<open>sint\<close> against \<open>unat\<close>, \<open>signed_drop_bit\<close> against
  \<open>drop_bit\<close>, signed against unsigned division).  Signed overflow of \<open>+\<close>, \<open>-\<close>, \<open>*\<close>
  and \<open><<\<close> is modelled as two's-complement wrap-around, which is what the spec
  states for the native width.
\<close>

type_synonym s16 = "16 word"
type_synonym s32 = "32 word"
type_synonym u32 = "32 word"
type_synonym s64 = "64 word"
type_synonym FIXED = s32

text \<open>Signed 64-bit division of C: the quotient truncates toward zero.\<close>

definition sdiv64 :: "s64 \<Rightarrow> s64 \<Rightarrow> s64" where
  "sdiv64 a b = word_of_int (sint a sdiv sint b)"

text \<open>The values a signed 32-bit integer can hold.\<close>

definition in_s32 :: "int \<Rightarrow> bool" where
  "in_s32 k = (- 2147483648 \<le> k \<and> k < 2147483648)"

section \<open>Fixed point\<close>

text \<open>
  \<open>constexpr const u32 FIX_SHIFT = 8U;\<close> and
  \<open>constexpr const u32 FIX_SCALE = (1U << FIX_SHIFT);\<close>: both constants are unsigned.
\<close>

definition FIX_SHIFT :: u32 where
  "FIX_SHIFT = 8"

definition FIX_SCALE :: u32 where
  "FIX_SCALE = push_bit (unat FIX_SHIFT) 1"

text \<open>\<open>int2fx\<close>: \<open>return d << FIX_SHIFT;\<close>\<close>

definition int2fx :: "s32 \<Rightarrow> FIXED" where
  "int2fx d = push_bit (unat FIX_SHIFT) d"

text \<open>
  \<open>fx2uint\<close>: \<open>return fx >> FIX_SHIFT;\<close>.  The left operand is the signed \<open>FIXED\<close>, so
  the shift is arithmetic; the result is then read as \<open>u32\<close>.
\<close>

definition fx2uint :: "FIXED \<Rightarrow> u32" where
  "fx2uint fx = signed_drop_bit (unat FIX_SHIFT) fx"

text \<open>
  \<open>fx2int\<close>: \<open>return fx / FIX_SCALE;\<close>.  \<open>fx\<close> is a signed and \<open>FIX_SCALE\<close> an unsigned
  32-bit integer, so the usual arithmetic conversions turn \<open>fx\<close> into an unsigned value
  and the division is the unsigned one (\<open>div\<close> on words); the quotient is converted
  back to \<open>int\<close> bit for bit.
\<close>

definition fx2int :: "FIXED \<Rightarrow> s32" where
  "fx2int fx = fx div FIX_SCALE"

text \<open>\<open>fxmul\<close>: \<open>return (fa * fb) >> FIX_SHIFT;\<close>, a signed product and an arithmetic shift.\<close>

definition fxmul :: "FIXED \<Rightarrow> FIXED \<Rightarrow> FIXED" where
  "fxmul fa fb = signed_drop_bit (unat FIX_SHIFT) (fa * fb)"

text \<open>
  \<open>fxdiv\<close>: \<open>return ((fa)*FIX_SCALE) / (fb);\<close>.  The product with the unsigned
  \<open>FIX_SCALE\<close> is unsigned, hence so is the division.  Division by zero has no result.
\<close>

definition fxdiv :: "FIXED \<Rightarrow> FIXED \<Rightarrow> FIXED option" where
  "fxdiv fa fb = (if fb = 0 then None else Some ((fa * FIX_SCALE) div fb))"

text \<open>
  \<open>fxmul64\<close>: \<open>return (((s64)fa) * fb) >> FIX_SHIFT;\<close>.  Both operands are sign-extended
  to 64 bits, the shift is arithmetic, and the 64-bit result is cut down to the 32-bit
  return type.
\<close>

definition fxmul64 :: "FIXED \<Rightarrow> FIXED \<Rightarrow> FIXED" where
  "fxmul64 fa fb =
     ucast (signed_drop_bit (unat FIX_SHIFT) ((scast fa :: s64) * (scast fb :: s64)))"

text \<open>\<open>fxdiv64\<close>: \<open>return (((s64)fa) << FIX_SHIFT) / (fb);\<close>, a signed 64-bit division.\<close>

definition fxdiv64 :: "FIXED \<Rightarrow> FIXED \<Rightarrow> FIXED option" where
  "fxdiv64 fa fb =
     (if fb = 0 then None
      else Some (ucast (sdiv64 (push_bit (unat FIX_SHIFT) (scast fa :: s64)) (scast fb :: s64))))"

subsection \<open>Reciprocal multiplication\<close>

text \<open>
  The macros \<open>FX_RECIPROCAL(a, fp) = (((1 << (fp)) + (a) - 1) / (a))\<close> and
  \<open>FX_RECIMUL(x, a, fp) = (((x) * ((1 << (fp)) + (a) - 1) / (a)) >> (fp))\<close> over
  mathematical integers (no intermediate leaves the native width), with the
  truncating division of C.  In \<open>FX_RECIMUL\<close> the operators \<open>*\<close> and \<open>/\<close> associate to
  the left: the numerator is multiplied with \<open>2^fp + a - 1\<close> first and the product is
  divided by \<open>a\<close>.
\<close>

definition FX_RECIPROCAL :: "int \<Rightarrow> nat \<Rightarrow> int option" where
  "FX_RECIPROCAL a fp = (if a = 0 then None else Some ((push_bit fp 1 + a - 1) sdiv a))"

definition FX_RECIMUL :: "int \<Rightarrow> int \<Rightarrow> nat \<Rightarrow> int option" where
  "FX_RECIMUL x a fp =
     (if a = 0 then None else Some (drop_bit fp ((x * (push_bit fp 1 + a - 1)) sdiv a)))"

section \<open>Look-up tables\<close>

text \<open>
  \<open>extern s16 sin_lut[514]\<close> is only declared here; the table is a parameter of the
  look-ups.  Reading an array outside its bounds has no result.
\<close>

definition SIN_LUT_SIZE :: nat where
  "SIN_LUT_SIZE = 514"

definition lut_read :: "'a list \<Rightarrow> nat \<Rightarrow> 'a option" where
  "lut_read lut i = (if i < length lut then Some (lut ! i) else None)"

text \<open>The index expressions \<open>(theta >> 7) & 0x1FF\<close> and \<open>((theta >> 7) + 128) & 0x1FF\<close>.\<close>

definition lu_sin_index :: "u32 \<Rightarrow> u32" where
  "lu_sin_index theta = drop_bit 7 theta AND 0x1FF"

definition lu_cos_index :: "u32 \<Rightarrow> u32" where
  "lu_cos_index theta = (drop_bit 7 theta + 128) AND 0x1FF"

text \<open>\<open>lu_sin\<close> and \<open>lu_cos\<close>: the 16-bit entry is sign-extended to the \<open>s32\<close> result.\<close>

definition lu_sin :: "s16 list \<Rightarrow> u32 \<Rightarrow> s32 option" where
  "lu_sin sin_lut theta = map_option scast (lut_read sin_lut (unat (lu_sin_index theta)))"

definition lu_cos :: "s16 list \<Rightarrow> u32 \<Rightarrow> s32 option" where
  "lu_cos sin_lut theta = map_option scast (lut_read sin_lut (unat (lu_cos_index theta)))"

section \<open>Points\<close>

text \<open>
  The point functions write through \<open>pd\<close> and read through \<open>pa\<close> and \<open>pb\<close>, which may
  point to the same object.  Objects live in a store indexed by addresses; every
  assignment of the source is one update of the store, in the source's order, and the
  store after the call is the result (the returned pointer is \<open>pd\<close> itself).
\<close>

type_synonym addr = nat
type_synonym 'a heap = "addr \<Rightarrow> 'a"

record POINT =
  pt_x :: s32
  pt_y :: s32

definition pt_add :: "POINT heap \<Rightarrow> addr \<Rightarrow> addr \<Rightarrow> addr \<Rightarrow> POINT heap" where
  "pt_add h pd pa pb =
     (let h1 = h(pd := (h pd)\<lparr>pt_x := pt_x (h pa) + pt_x (h pb)\<rparr>);
          h2 = h1(pd := (h1 pd)\<lparr>pt_y := pt_x (h1 pa) + pt_y (h1 pb)\<rparr>)
      in h2)"

definition pt_sub :: "POINT heap \<Rightarrow> addr \<Rightarrow> addr \<Rightarrow> addr \<Rightarrow> POINT heap" where
  "pt_sub h pd pa pb =
     (let h1 = h(pd := (h pd)\<lparr>pt_x := pt_x (h pa) - pt_x (h pb)\<rparr>);
          h2 = h1(pd := (h1 pd)\<lparr>pt_y := pt_x (h1 pa) - pt_y (h1 pb)\<rparr>)
      in h2)"

definition pt_add_eq :: "POINT heap \<Rightarrow> addr \<Rightarrow> addr \<Rightarrow> POINT heap" where
  "pt_add_eq h pd pb =
     (let h1 = h(pd := (h pd)\<lparr>pt_x := pt_x (h pd) + pt_y (h pb)\<rparr>);
          h2 = h1(pd := (h1 pd)\<lparr>pt_y := pt_y (h1 pd) + pt_y (h1 pb)\<rparr>)
      in h2)"

definition pt_sub_eq :: "POINT heap \<Rightarrow> addr \<Rightarrow> addr \<Rightarrow> POINT heap" where
  "pt_sub_eq h pd pb =
     (let h1 = h(pd := (h pd)\<lparr>pt_x := pt_x (h pd) - pt_y (h pb)\<rparr>);
          h2 = h1(pd := (h1 pd)\<lparr>pt_y := pt_y (h1 pd) - pt_y (h1 pb)\<rparr>)
      in h2)"

text \<open>A store with \<open>pd\<close> at address 0, \<open>pa = (1, 2)\<close> at 1 and \<open>pb = (3, 4)\<close> at 2.\<close>

definition pt_store :: "POINT heap" where
  "pt_store =
     ((\<lambda>_. \<lparr>pt_x = 0, pt_y = 0\<rparr>)
        (1 := \<lparr>pt_x = 1, pt_y = 2\<rparr>, 2 := \<lparr>pt_x = 3, pt_y = 4\<rparr>))"

section \<open>Rectangles\<close>

text \<open>
  The rectangle functions take one pointer and plain integers, so the object is passed
  in and the updated object is returned.
\<close>

record RECT =
  rc_left :: s32
  rc_top :: s32
  rc_right :: s32
  rc_bottom :: s32

definition rc_width :: "RECT \<Rightarrow> s32" where
  "rc_width rc = rc_right rc - rc_left rc"

definition rc_height :: "RECT \<Rightarrow> s32" where
  "rc_height rc = rc_bottom rc - rc_top rc"

definition rc_set_pos :: "RECT \<Rightarrow> s32 \<Rightarrow> s32 \<Rightarrow> RECT" where
  "rc_set_pos rc x y =
     (let rc1 = rc\<lparr>rc_right := rc_right rc + (x - rc_left rc)\<rparr>;
          rc2 = rc1\<lparr>rc_left := x\<rparr>;
          rc3 = rc2\<lparr>rc_bottom := rc_bottom rc2 + (y - rc_top rc2)\<rparr>;
          rc4 = rc3\<lparr>rc_top := y\<rparr>
      in rc4)"

section \<open>Vectors\<close>

record VECTOR =
  vec_x :: FIXED
  vec_y :: FIXED
  vec_z :: FIXED

definition vec_add :: "VECTOR heap \<Rightarrow> addr \<Rightarrow> addr \<Rightarrow> addr \<Rightarrow> VECTOR heap" where
  "vec_add h vd va vb =
     (let h1 = h(vd := (h vd)\<lparr>vec_x := vec_x (h va) + vec_x (h vb)\<rparr>);
          h2 = h1(vd := (h1 vd)\<lparr>vec_y := vec_y (h1 va) + vec_y (h1 vb)\<rparr>);
          h3 = h2(vd := (h2 vd)\<lparr>vec_z := vec_z (h2 va) + vec_z (h2 vb)\<rparr>)
      in h3)"

definition vec_sub :: "VECTOR heap \<Rightarrow> addr \<Rightarrow> addr \<Rightarrow> addr \<Rightarrow> VECTOR heap" where
  "vec_sub h vd va vb =
     (let h1 = h(vd := (h vd)\<lparr>vec_x := vec_x (h va) - vec_x (h vb)\<rparr>);
          h2 = h1(vd := (h1 vd)\<lparr>vec_y := vec_y (h1 va) - vec_y (h1 vb)\<rparr>);
          h3 = h2(vd := (h2 vd)\<lparr>vec_z := vec_z (h2 va) - vec_z (h2 vb)\<rparr>)
      in h3)"

definition vec_mul :: "VECTOR heap \<Rightarrow> addr \<Rightarrow> addr \<Rightarrow> addr \<Rightarrow> VECTOR heap" where
  "vec_mul h vd va vb =
     (let h1 = h(vd := (h vd)\<lparr>vec_x := fxmul (vec_x (h va)) (vec_x (h vb))\<rparr>);
          h2 = h1(vd := (h1 vd)\<lparr>vec_y := fxmul (vec_y (h1 va)) (vec_y (h1 vb))\<rparr>);
          h3 = h2(vd := (h2 vd)\<lparr>vec_z := fxmul (vec_z (h2 va)) (vec_z (h2 vb))\<rparr>)
      in h3)"

definition vec_scale :: "VECTOR heap \<Rightarrow> addr \<Rightarrow> addr \<Rightarrow> FIXED \<Rightarrow> VECTOR heap" where
  "vec_scale h vd va c =
     (let h1 = h(vd := (h vd)\<lparr>vec_x := fxmul (vec_x (h va)) c\<rparr>);
          h2 = h1(vd := (h1 vd)\<lparr>vec_y := fxmul (vec_y (h1 va)) c\<rparr>);
          h3 = h2(vd := (h2 vd)\<lparr>vec_z := fxmul (vec_z (h2 va)) c\<rparr>)
      in h3)"

definition vec_add_eq :: "VECTOR heap \<Rightarrow> addr \<Rightarrow> addr \<Rightarrow> VECTOR heap" where
  "vec_add_eq h vd vb =
     (let h1 = h(vd := (h vd)\<lparr>vec_x := vec_x (h vd) + vec_x (h vb)\<rparr>);
          h2 = h1(vd := (h1 vd)\<lparr>vec_y := vec_y (h1 vd) + vec_y (h1 vb)\<rparr>);
          h3 = h2(vd := (h2 vd)\<lparr>vec_z := vec_z (h2 vd) + vec_z (h2 vb)\<rparr>)
      in h3)"

definition vec_sub_eq :: "VECTOR heap \<Rightarrow> addr \<Rightarrow> addr \<Rightarrow> VECTOR heap" where
  "vec_sub_eq h vd vb =
     (let h1 = h(vd := (h vd)\<lparr>vec_x := vec_x (h vd) - vec_x (h vb)\<rparr>);
          h2 = h1(vd := (h1 vd)\<lparr>vec_y := vec_y (h1 vd) - vec_y (h1 vb)\<rparr>);
          h3 = h2(vd := (h2 vd)\<lparr>vec_z := vec_z (h2 vd) - vec_z (h2 vb)\<rparr>)
      in h3)"

definition vec_mul_eq :: "VECTOR heap \<Rightarrow> addr \<Rightarrow> addr \<Rightarrow> VECTOR heap" where
  "vec_mul_eq h vd vb =
     (let h1 = h(vd := (h vd)\<lparr>vec_x := fxmul (vec_x (h vd)) (vec_x (h vb))\<rparr>);
          h2 = h1(vd := (h1 vd)\<lparr>vec_y := fxmul (vec_y (h1 vd)) (vec_y (h1 vb))\<rparr>);
          h3 = h2(vd := (h2 vd)\<lparr>vec_z := fxmul (vec_z (h2 vd)) (vec_z (h2 vb))\<rparr>)
      in h3)"

definition vec_scale_eq :: "VECTOR heap \<Rightarrow> addr \<Rightarrow> FIXED \<Rightarrow> VECTOR heap" where
  "vec_scale_eq h vd c =
     (let h1 = h(vd := (h vd)\<lparr>vec_x := fxmul (vec_x (h vd)) c\<rparr>);
          h2 = h1(vd := (h1 vd)\<lparr>vec_y := fxmul (vec_y (h1 vd)) c\<rparr>);
          h3 = h2(vd := (h2 vd)\<lparr>vec_z := fxmul (vec_z (h2 vd)) c\<rparr>)
      in h3)"

text \<open>A store with the vector \<open>(256, 512, 768)\<close> at address 0 and a copy of it at 1.\<close>

definition vec_store :: "VECTOR heap" where
  "vec_store = (\<lambda>_. \<lparr>vec_x = 256, vec_y = 512, vec_z = 768\<rparr>)"

section \<open>Point arithmetic\<close>

text \<open>
  What the four functions store when \<open>pd\<close> is an object of its own: the \<open>y\<close> component
  of \<open>pt_add\<close> and \<open>pt_sub\<close> is computed from \<open>pa->x\<close>, and the \<open>x\<close> component of
  \<open>pt_add_eq\<close> and \<open>pt_sub_eq\<close> from \<open>pb->y\<close>.
\<close>

lemma pt_add_result:
  "pd \<noteq> pa \<Longrightarrow> pd \<noteq> pb \<Longrightarrow>
   pt_add h pd pa pb pd = (h pd)\<lparr>pt_x := pt_x (h pa) + pt_x (h pb), pt_y := pt_x (h pa) + pt_y (h pb)\<rparr>"
  by (simp add: pt_add_def Let_def)

lemma pt_sub_result:
  "pd \<noteq> pa \<Longrightarrow> pd \<noteq> pb \<Longrightarrow>
   pt_sub h pd pa pb pd = (h pd)\<lparr>pt_x := pt_x (h pa) - pt_x (h pb), pt_y := pt_x (h pa) - pt_y (h pb)\<rparr>"
  by (simp add: pt_sub_def Let_def)

lemma pt_add_eq_result:
  "pd \<noteq> pb \<Longrightarrow>
   pt_add_eq h pd pb pd = (h pd)\<lparr>pt_x := pt_x (h pd) + pt_y (h pb), pt_y := pt_y (h pd) + pt_y (h pb)\<rparr>"
  by (simp add: pt_add_eq_def Let_def)

lemma pt_sub_eq_result:
  "pd \<noteq> pb \<Longrightarrow>
   pt_sub_eq h pd pb pd = (h pd)\<lparr>pt_x := pt_x (h pd) - pt_y (h pb), pt_y := pt_y (h pd) - pt_y (h pb)\<rparr>"
  by (simp add: pt_sub_eq_def Let_def)

text \<open>
  Claim C1: \<open>pt_add\<close> and \<open>pt_sub\<close> store the component-wise sum and difference of \<open>pa\<close>
  and \<open>pb\<close> in \<open>pd\<close>, and \<open>pt_add_eq\<close>, \<open>pt_sub_eq\<close> do so in place.  The code does not:
  with \<open>pa = (1, 2)\<close> and \<open>pb = (3, 4)\<close>, \<open>pt_add\<close> stores \<open>(4, 5)\<close> instead of \<open>(4, 6)\<close>
  and \<open>pt_sub\<close> stores \<open>(-2, -3)\<close> instead of \<open>(-2, -2)\<close>; with \<open>pd = (1, 2)\<close> and
  \<open>pb = (3, 4)\<close>, \<open>pt_add_eq\<close> leaves \<open>(5, 6)\<close> instead of \<open>(4, 6)\<close> and \<open>pt_sub_eq\<close>
  leaves \<open>(-3, -2)\<close> instead of \<open>(-2, -2)\<close>.
\<close>

theorem pt_ops_mix_components:
  "pt_add pt_store 0 1 2 0 = \<lparr>pt_x = 4, pt_y = 5\<rparr> \<and>
   pt_sub pt_store 0 1 2 0 = \<lparr>pt_x = - 2, pt_y = - 3\<rparr> \<and>
   pt_add_eq pt_store 1 2 1 = \<lparr>pt_x = 5, pt_y = 6\<rparr> \<and>
   pt_sub_eq pt_store 1 2 1 = \<lparr>pt_x = - 3, pt_y = - 2\<rparr>"
  by (simp add: pt_add_def pt_sub_def pt_add_eq_def pt_sub_eq_def pt_store_def Let_def)

section \<open>Moving a rectangle\<close>

text \<open>
  Claim C9: after \<open>rc_set_pos(rc, x, y)\<close> the left edge is \<open>x\<close> and the top edge is \<open>y\<close>,
  and \<open>rc_width\<close> and \<open>rc_height\<close> have the values they had before the call.
\<close>

theorem rc_set_pos_keeps_size:
  "rc_left (rc_set_pos rc x y) = x \<and>
   rc_top (rc_set_pos rc x y) = y \<and>
   rc_width (rc_set_pos rc x y) = rc_width rc \<and>
   rc_height (rc_set_pos rc x y) = rc_height rc"
  by (simp add: rc_set_pos_def rc_width_def rc_height_def Let_def)

section \<open>In-place vector operations\<close>

text \<open>
  Claim C10: each of \<open>vec_add_eq\<close>, \<open>vec_sub_eq\<close>, \<open>vec_mul_eq\<close> and \<open>vec_scale_eq\<close>
  leaves the store exactly as the corresponding three-operand function does when its
  first source operand \<open>va\<close> holds the prior value of \<open>vd\<close> (be it \<open>vd\<close> itself or a copy
  at another address), whatever \<open>vb\<close> points to, \<open>vd\<close> included.
\<close>

theorem vec_eq_variants_refine:
  "h va = h vd \<Longrightarrow>
   vec_add_eq h vd vb = vec_add h vd va vb \<and>
   vec_sub_eq h vd vb = vec_sub h vd va vb \<and>
   vec_mul_eq h vd vb = vec_mul h vd va vb \<and>
   vec_scale_eq h vd c = vec_scale h vd va c"
  by (simp add: vec_add_eq_def vec_add_def vec_sub_eq_def vec_sub_def vec_mul_eq_def
      vec_mul_def vec_scale_eq_def vec_scale_def Let_def fun_eq_iff)

theorem vec_eq_variants_refine_witness:
  "vec_store 1 = vec_store 0 \<and>
   vec_add_eq vec_store 0 0 = vec_add vec_store 0 1 0 \<and>
   vec_add_eq vec_store 0 0 0 = \<lparr>vec_x = 512, vec_y = 1024, vec_z = 1536\<rparr> \<and>
   vec_sub_eq vec_store 0 1 = vec_sub vec_store 0 1 1 \<and>
   vec_mul_eq vec_store 0 1 = vec_mul vec_store 0 1 1 \<and>
   vec_scale_eq vec_store 0 512 = vec_scale vec_store 0 1 512"
  using vec_eq_variants_refine [of vec_store 1 0 0 512]
    vec_eq_variants_refine [of vec_store 1 0 1 512]
  by (simp add: vec_store_def vec_add_eq_def vec_add_def Let_def)

section \<open>Sine and cosine look-up\<close>

lemma idx_nat: "x div 128 mod 512 = drop_bit 7 (take_bit 16 (x::nat))"
proof -
  have "take_bit 9 (drop_bit 7 x) = drop_bit 7 (take_bit 16 x)"
    by (simp add: take_bit_drop_bit)
  then show ?thesis
    by (simp add: take_bit_eq_mod drop_bit_eq_div)
qed

lemma idx_mod32: "(x mod 4294967296) div 128 mod 512 = x div 128 mod (512::nat)"
proof -
  have "take_bit 16 (take_bit 32 x) = take_bit 16 x"
    by simp
  then have "take_bit 16 (x mod 4294967296) = take_bit 16 x"
    by (simp add: take_bit_eq_mod)
  then show ?thesis
    by (simp only: idx_nat)
qed

lemma idx_turn: "(x + 65536) div 128 mod 512 = x div 128 mod (512::nat)"
proof -
  have "take_bit 16 (x + 65536) = take_bit 16 x"
    by (simp add: take_bit_eq_mod)
  then show ?thesis
    by (simp only: idx_nat)
qed

lemma idx_quarter: "(x + 16384) div 128 = x div 128 + (128::nat)"
  by simp

lemma unat_and_511: "unat ((w::u32) AND 511) = unat w mod 512"
proof -
  have "(511::u32) = mask 9"
    by (simp add: mask_eq_exp_minus_1)
  then have "w AND 511 = take_bit 9 w"
    by (simp add: take_bit_eq_mask)
  then show ?thesis
    by (simp add: take_bit_eq_mod unat_mod)
qed

lemma unat_lu_sin_index: "unat (lu_sin_index theta) = unat theta div 128 mod 512"
  by (simp add: lu_sin_index_def unat_and_511 drop_bit_eq_div unat_div)

lemma unat_lu_cos_index: "unat (lu_cos_index theta) = (unat theta div 128 + 128) mod 512"
proof -
  have "unat theta < 2 ^ 32"
    using unsigned_less [of theta] by simp
  then have "unat theta div 128 + 128 < 2 ^ 32"
    by simp
  then show ?thesis
    by (simp add: lu_cos_index_def unat_and_511 drop_bit_eq_div unat_div unat_word_ariths)
qed

lemma lu_sin_index_full_turn: "lu_sin_index (theta + 65536) = lu_sin_index theta"
proof -
  have "unat (lu_sin_index (theta + 65536)) = unat (lu_sin_index theta)"
    by (simp add: unat_lu_sin_index unat_word_ariths idx_mod32 idx_turn)
  then show ?thesis
    by (simp only: word_unat_eq_iff)
qed

lemma lu_cos_index_quarter_turn: "lu_cos_index theta = lu_sin_index (theta + 16384)"
proof -
  have "unat (lu_cos_index theta) = unat (lu_sin_index (theta + 16384))"
    by (simp add: unat_lu_sin_index unat_lu_cos_index unat_word_ariths idx_mod32 idx_quarter)
  then show ?thesis
    by (simp only: word_unat_eq_iff)
qed

text \<open>
  Claim C4: for every unsigned 32-bit angle, \<open>lu_sin(theta + 65536)\<close> is \<open>lu_sin(theta)\<close>
  and \<open>lu_cos(theta)\<close> is \<open>lu_sin(theta + 16384)\<close>.  Both hold as equalities of the
  looked-up entries, for every table and also where the sum wraps around \<open>2^32\<close>, so no
  discretization error enters.
\<close>

theorem lu_sin_period_lu_cos_shift:
  "lu_sin sin_lut (theta + 65536) = lu_sin sin_lut theta \<and>
   lu_cos sin_lut theta = lu_sin sin_lut (theta + 16384)"
  by (simp add: lu_sin_def lu_cos_def lu_sin_index_full_turn lu_cos_index_quarter_turn)

text \<open>
  Claim C8: for every unsigned 32-bit angle the indices computed by \<open>lu_sin\<close> and
  \<open>lu_cos\<close> lie in \<open>[0, 511]\<close>, so with a table of \<open>SIN_LUT_SIZE = 514\<close> entries both
  look-ups read inside the table and return the entry at that index.
\<close>

theorem lu_index_in_table:
  "unat (lu_sin_index theta) \<le> 511 \<and> unat (lu_cos_index theta) \<le> 511 \<and>
   (length sin_lut = SIN_LUT_SIZE \<longrightarrow>
      lu_sin sin_lut theta = Some (scast (sin_lut ! unat (lu_sin_index theta))) \<and>
      lu_cos sin_lut theta = Some (scast (sin_lut ! unat (lu_cos_index theta))))"
proof -
  have s: "unat (lu_sin_index theta) < 512"
    by (simp add: unat_lu_sin_index)
  have c: "unat (lu_cos_index theta) < 512"
    by (simp add: unat_lu_cos_index)
  from s c show ?thesis
    by (simp add: lu_sin_def lu_cos_def lut_read_def SIN_LUT_SIZE_def)
qed

theorem lu_index_in_table_witness:
  "length (replicate 514 (7 :: s16)) = SIN_LUT_SIZE \<and>
   lu_sin (replicate 514 7) 4294967295 = Some 7 \<and>
   lu_cos (replicate 514 7) 4294967295 = Some 7"
  using lu_index_in_table [of 4294967295 "replicate 514 7"]
  by (simp add: SIN_LUT_SIZE_def)

section \<open>Multiplication\<close>

lemma ucast_s64_s32: "(ucast (w :: s64) :: s32) = word_of_int (sint w)"
proof -
  have "take_bit LENGTH(32) (uint w) = take_bit LENGTH(32) (sint w)"
    by (simp add: sint_uint take_bit_signed_take_bit)
  then show ?thesis
    unfolding ucast_eq word_of_int_eq_iff .
qed

lemma sint32_bounds: "- 2147483648 \<le> sint (w :: s32) \<and> sint w < 2147483648"
  using sint_ge [of w] sint_lt [of w] by simp

lemma s32_product_bounds:
  "- 4611686018427387904 \<le> sint (fa :: s32) * sint (fb :: s32) \<and>
   sint fa * sint fb \<le> 4611686018427387904"
proof -
  have "\<bar>sint fa\<bar> \<le> 2147483648" "\<bar>sint fb\<bar> \<le> 2147483648"
    using sint32_bounds [of fa] sint32_bounds [of fb] by auto
  then have "\<bar>sint fa\<bar> * \<bar>sint fb\<bar> \<le> 2147483648 * 2147483648"
    by (intro mult_mono) auto
  then have "\<bar>sint fa * sint fb\<bar> \<le> 4611686018427387904"
    by (simp add: abs_mult)
  then show ?thesis
    by auto
qed

lemma sint_wide_product:
  "sint ((scast (fa :: s32) :: s64) * (scast (fb :: s32) :: s64)) = sint fa * sint fb"
proof -
  have "sint (scast fa :: s64) = sint fa" "sint (scast fb :: s64) = sint fb"
    by (simp_all add: sint_up_scast is_up)
  moreover have "signed_take_bit 63 (sint fa * sint fb) = sint fa * sint fb"
    using s32_product_bounds [of fa fb] by (intro signed_take_bit_int_eq_self) auto
  ultimately show ?thesis
    by (simp add: sint_word_mult)
qed

text \<open>The wide product is exact; only cutting it down to 32 bits can lose anything.\<close>

lemma fxmul64_eq: "fxmul64 fa fb = word_of_int ((sint fa * sint fb) div 256)"
  by (simp add: fxmul64_def FIX_SHIFT_def ucast_s64_s32 sint_signed_drop_bit_eq
      sint_wide_product drop_bit_eq_div)

lemma sint_fxmul64: "sint (fxmul64 fa fb) = signed_take_bit 31 ((sint fa * sint fb) div 256)"
  by (simp add: fxmul64_eq sint_sbintrunc')

lemma sint_fxmul: "sint (fxmul fa fb) = signed_take_bit 31 (sint fa * sint fb) div 256"
  by (simp add: fxmul_def FIX_SHIFT_def sint_signed_drop_bit_eq sint_word_mult drop_bit_eq_div)

lemma fxmul64_exact:
  assumes "in_s32 ((sint fa * sint fb) div 256)"
  shows "sint (fxmul64 fa fb) = (sint fa * sint fb) div 256"
  using assms by (simp add: in_s32_def sint_fxmul64 signed_take_bit_int_eq_self)

lemma fxmul64_fxmul:
  assumes "in_s32 (sint fa * sint fb)"
  shows "fxmul64 fa fb = fxmul fa fb"
proof -
  have "signed_take_bit 31 (sint fa * sint fb) = sint fa * sint fb"
    using assms by (simp add: in_s32_def signed_take_bit_int_eq_self)
  moreover have "in_s32 ((sint fa * sint fb) div 256)"
  proof -
    from assms have "- 2147483648 \<le> sint fa * sint fb" "sint fa * sint fb < 2147483648"
      by (simp_all add: in_s32_def)
    then have "- 2147483648 \<le> (sint fa * sint fb) div 256"
      "(sint fa * sint fb) div 256 < 2147483648"
      by simp_all
    then show ?thesis
      by (simp add: in_s32_def)
  qed
  ultimately have "sint (fxmul64 fa fb) = sint (fxmul fa fb)"
    by (simp add: sint_fxmul fxmul64_exact)
  then show ?thesis
    by (rule signed_word_eqI)
qed

text \<open>
  Claim C3, as stated: \<open>fxmul64\<close> equals \<open>fxmul\<close> wherever the product \<open>fa * fb\<close> fits 32
  signed bits, and stays within one unit in the last place of \<open>(fa * fb) / 256\<close> where
  the narrow product overflows.  The second half fails where the scaled product itself
  does not fit the 32-bit result: for \<open>fa = fb = 2^24\<close> (65536.0) the narrow product
  overflows, the scaled product is \<open>2^40\<close>, and \<open>fxmul64\<close> returns 0.
\<close>

theorem fxmul64_result_wraps:
  "\<not> in_s32 (sint (16777216 :: FIXED) * sint (16777216 :: FIXED)) \<and>
   fxmul64 16777216 16777216 = 0 \<and>
   \<not> \<bar>256 * sint (fxmul64 16777216 16777216)
        - sint (16777216 :: FIXED) * sint (16777216 :: FIXED)\<bar> \<le> 256"
  by (simp add: in_s32_def fxmul64_eq)

text \<open>
  Claim C3, amended: \<open>fxmul64\<close> equals \<open>fxmul\<close> wherever the product \<open>fa * fb\<close> fits 32
  signed bits; and wherever the scaled product \<open>(fa * fb) / 256\<close>, rounded down, fits 32
  signed bits (the narrow product may overflow), \<open>fxmul64\<close> returns exactly that value,
  less than one unit in the last place below the exact scaled product.
\<close>

theorem fxmul64_refines_fxmul:
  "(in_s32 (sint fa * sint fb) \<longrightarrow> fxmul64 fa fb = fxmul fa fb) \<and>
   (in_s32 ((sint fa * sint fb) div 256) \<longrightarrow>
      sint (fxmul64 fa fb) = (sint fa * sint fb) div 256 \<and>
      0 \<le> sint fa * sint fb - 256 * sint (fxmul64 fa fb) \<and>
      sint fa * sint fb - 256 * sint (fxmul64 fa fb) < 256)"
proof -
  have "0 \<le> p - 256 * (p div 256) \<and> p - 256 * (p div 256) < 256" for p :: int
    by (simp add: minus_mult_div_eq_mod)
  then show ?thesis
    by (simp add: fxmul64_fxmul fxmul64_exact)
qed

theorem fxmul64_refines_fxmul_witness:
  "in_s32 (sint (768 :: FIXED) * sint (640 :: FIXED)) \<and>
   fxmul64 768 640 = fxmul 768 640 \<and>
   \<not> in_s32 (sint (65536 :: FIXED) * sint (65536 :: FIXED)) \<and>
   in_s32 ((sint (65536 :: FIXED) * sint (65536 :: FIXED)) div 256) \<and>
   sint (fxmul64 65536 65536) = 16777216 \<and>
   fxmul 65536 65536 = 0"
  using fxmul64_refines_fxmul [of 768 640] fxmul64_refines_fxmul [of 65536 65536]
  by (simp add: in_s32_def fxmul_def FIX_SHIFT_def)

section \<open>Signed and unsigned readings\<close>

lemma sint_s32_cases:
  "sint (w :: s32) = (if uint w < 2147483648 then uint w else uint w - 4294967296)"
proof -
  have u: "0 \<le> uint w" "uint w < 4294967296"
    using uint_lt2p [of w] by simp_all
  have "sint w = signed_take_bit 31 (uint w)"
    by (simp add: sint_uint)
  also have "\<dots> = take_bit 32 (uint w + 2147483648) - 2147483648"
    by (simp add: signed_take_bit_eq_take_bit_shift)
  also have "\<dots> = (uint w + 2147483648) mod 4294967296 - 2147483648"
    by (simp add: take_bit_eq_mod)
  also have "\<dots> = (if uint w < 2147483648 then uint w else uint w - 4294967296)"
  proof (cases "uint w < 2147483648")
    case True
    with u have "(uint w + 2147483648) mod 4294967296 = uint w + 2147483648"
      by (intro mod_pos_pos_trivial) simp_all
    with True show ?thesis
      by simp
  next
    case False
    with u have "(uint w + 2147483648 - 4294967296) mod 4294967296
        = uint w + 2147483648 - 4294967296"
      by (intro mod_pos_pos_trivial) simp_all
    moreover have "(uint w + 2147483648 - 4294967296) mod 4294967296
        = (uint w + 2147483648) mod 4294967296"
      by (metis minus_mod_self2)
    ultimately show ?thesis
      using False by simp
  qed
  finally show ?thesis .
qed

lemma uint_eq_sint_nonneg: "0 \<le> sint (w :: s32) \<Longrightarrow> uint w = sint w"
  using uint_lt2p [of w] by (simp add: sint_s32_cases split: if_splits)

lemma sint_eq_uint_small: "uint (w :: s32) < 2147483648 \<Longrightarrow> sint w = uint w"
  by (simp add: sint_s32_cases)

lemma sdiv_nonneg: "0 \<le> k \<Longrightarrow> 0 < l \<Longrightarrow> k sdiv l = k div (l :: int)"
  by (simp add: signed_divide_int_def sgn_if)

lemma FIX_SCALE_256: "FIX_SCALE = 256"
  by (simp add: FIX_SCALE_def FIX_SHIFT_def)

section \<open>Conversions between fixed point and integers\<close>

text \<open>
  \<open>fx2int\<close> divides the unsigned reading of its argument: its result is never negative.
\<close>

lemma uint_fx2int: "uint (fx2int fx) = uint fx div 256"
  by (simp add: fx2int_def FIX_SCALE_256 uint_div)

lemma sint_fx2int: "sint (fx2int fx) = uint fx div 256"
proof -
  have "uint fx < 4294967296"
    using uint_lt2p [of fx] by simp
  then have "uint fx div 256 < 2147483648"
    by simp
  then show ?thesis
    by (simp add: sint_eq_uint_small uint_fx2int)
qed

text \<open>\<open>fx2uint\<close> is the arithmetic shift: it rounds toward minus infinity.\<close>

lemma fx2uint_shift: "fx2uint fx = signed_drop_bit 8 fx"
  by (simp add: fx2uint_def FIX_SHIFT_def)

lemma sint_fx2uint: "sint (fx2uint fx) = sint fx div 256"
  by (simp add: fx2uint_shift sint_signed_drop_bit_eq drop_bit_eq_div)

text \<open>
  On non-negative arguments the two conversions agree, and \<open>fx2int\<close> is the truncating
  quotient by 256; on negative arguments they differ.
\<close>

lemma fx2uint_fx2int_nonneg:
  assumes "0 \<le> sint fx"
  shows "fx2uint fx = fx2int fx" and "sint (fx2int fx) = sint fx sdiv 256"
proof -
  from assms have u: "uint fx = sint fx"
    by (rule uint_eq_sint_nonneg)
  then have "sint (fx2uint fx) = sint (fx2int fx)"
    by (simp add: sint_fx2uint sint_fx2int)
  then show "fx2uint fx = fx2int fx"
    by (rule signed_word_eqI)
  from assms show "sint (fx2int fx) = sint fx sdiv 256"
    by (simp add: sint_fx2int u signed_divide_int_def sgn_if)
qed

lemma fx2uint_fx2int_neg:
  assumes "sint fx < 0"
  shows "fx2uint fx \<noteq> fx2int fx"
proof
  assume "fx2uint fx = fx2int fx"
  then have "sint fx div 256 = uint fx div 256"
    using sint_fx2uint [of fx] sint_fx2int [of fx] by simp
  moreover from assms have "sint fx div 256 < 0"
    by simp
  moreover have "0 \<le> uint fx div 256"
    by (simp add: pos_imp_zdiv_nonneg_iff)
  ultimately show False
    by simp
qed

text \<open>
  Claim C6: \<open>fx2uint(fx)\<close> is the arithmetic shift \<open>fx >> 8\<close>; it agrees with \<open>fx2int\<close>, the
  division by 256 that truncates toward zero, on every non-negative \<open>fx\<close>, and the two
  differ on negative \<open>fx\<close>.  The statements on \<open>fx2uint\<close> hold (lemmas \<open>fx2uint_shift\<close>,
  \<open>fx2uint_fx2int_nonneg\<close>, \<open>fx2uint_fx2int_neg\<close>), but \<open>fx2int\<close> does not truncate
  toward zero on negative values: for \<open>fx = -384\<close> (-1.5) the truncating quotient is
  \<open>-1\<close> and \<open>fx2int\<close> returns \<open>16777214\<close>, while \<open>fx2uint\<close> returns the bits of \<open>-2\<close>.
\<close>

theorem fx2int_negative_not_truncating:
  "fx2int (- 384) = 16777214 \<and>
   sint (fx2int (- 384)) = 16777214 \<and>
   sint (- 384 :: FIXED) sdiv 256 = - 1 \<and>
   fx2uint (- 384) = - 2"
  by (simp add: fx2int_def fx2uint_def FIX_SCALE_def FIX_SHIFT_def)

text \<open>The round trip through \<open>int2fx\<close> and \<open>fx2int\<close> is the identity from 0 upward.\<close>

lemma fx2int_int2fx_nonneg:
  assumes "0 \<le> sint d" and "in_s32 (sint d * 256)"
  shows "fx2int (int2fx d) = d"
proof -
  from assms have u: "uint d = sint d"
    by (simp add: uint_eq_sint_nonneg)
  with assms have "uint d * 256 < 4294967296"
    by (simp add: in_s32_def)
  moreover have "0 \<le> uint d * 256"
    by simp
  ultimately have "(uint d * 256) mod 4294967296 = uint d * 256"
    by (intro mod_pos_pos_trivial)
  then have "uint (int2fx d) = uint d * 256"
    by (simp add: int2fx_def FIX_SHIFT_def push_bit_eq_mult uint_word_ariths)
  then have "uint (fx2int (int2fx d)) = uint d"
    by (simp add: uint_fx2int)
  then show ?thesis
    by (simp only: word_uint_eq_iff)
qed

text \<open>
  Claim C7: \<open>fx2int(int2fx(d)) = d\<close> for every integer \<open>d\<close> with \<open>d * 256\<close> in the 32-bit
  signed range.  For \<open>d = -1\<close> the scaled value \<open>-256\<close> is in range, and the code returns
  \<open>16777215\<close>.
\<close>

theorem fx2int_int2fx_negative:
  "in_s32 (sint (- 1 :: s32) * 256) \<and>
   int2fx (- 1) = - 256 \<and>
   fx2int (int2fx (- 1)) = 16777215 \<and>
   fx2int (int2fx (- 1)) \<noteq> - 1"
  by (simp add: fx2int_def int2fx_def FIX_SCALE_def FIX_SHIFT_def in_s32_def push_bit_eq_mult)

section \<open>Division\<close>

lemma sint_wide_scaled: "sint (push_bit 8 (scast (fa :: s32) :: s64)) = sint fa * 256"
proof -
  have "sint (scast fa :: s64) = sint fa"
    by (simp add: sint_up_scast is_up)
  moreover have "signed_take_bit 63 (sint fa * 256) = sint fa * 256"
    using sint32_bounds [of fa] by (intro signed_take_bit_int_eq_self) auto
  ultimately show ?thesis
    by (simp add: push_bit_eq_mult sint_word_mult)
qed

text \<open>\<open>fxdiv64\<close> is the truncating quotient of the exact scaled numerator.\<close>

lemma fxdiv64_eq:
  "fb \<noteq> 0 \<Longrightarrow> fxdiv64 fa fb = Some (word_of_int ((sint fa * 256) sdiv sint fb))"
proof -
  have "sint (scast fb :: s64) = sint fb"
    by (simp add: sint_up_scast is_up)
  moreover have "(ucast (word_of_int k :: s64) :: s32) = word_of_int k" for k
    by (simp add: ucast_down_wi is_down)
  moreover assume "fb \<noteq> 0"
  ultimately show ?thesis
    by (simp add: fxdiv64_def sdiv64_def FIX_SHIFT_def sint_wide_scaled)
qed

text \<open>\<open>fxdiv\<close> is the quotient of the unsigned readings.\<close>

lemma fxdiv_eq:
  "fb \<noteq> 0 \<Longrightarrow>
   fxdiv fa fb = Some (word_of_int ((uint fa * 256) mod 4294967296 div uint fb))"
proof -
  have "uint (fa * 256) = (uint fa * 256) mod 4294967296"
    by (simp add: uint_word_ariths)
  moreover assume "fb \<noteq> 0"
  ultimately show ?thesis
    by (simp add: fxdiv_def FIX_SCALE_256 word_div_def)
qed

lemma fxdiv_by_zero: "fxdiv fa 0 = None \<and> fxdiv64 fa 0 = None"
  by (simp add: fxdiv_def fxdiv64_def)

text \<open>The two divisions agree where neither operand is negative.\<close>

lemma fxdiv64_fxdiv_nonneg:
  assumes "0 \<le> sint fa" and "0 < sint fb" and "in_s32 (sint fa * 256)"
  shows "fxdiv64 fa fb = fxdiv fa fb"
proof -
  from assms have a: "uint fa = sint fa" and b: "uint fb = sint fb"
    by (simp_all add: uint_eq_sint_nonneg)
  from assms have nz: "fb \<noteq> 0"
    by auto
  from assms have "0 \<le> sint fa * 256" "sint fa * 256 < 4294967296"
    by (simp_all add: in_s32_def)
  then have "(sint fa * 256) mod 4294967296 = sint fa * 256"
    by (intro mod_pos_pos_trivial)
  with assms nz show ?thesis
    by (simp add: fxdiv64_eq fxdiv_eq a b sdiv_nonneg)
qed

text \<open>
  Claim C5: \<open>fxdiv64(fa, fb) = fxdiv(fa, fb)\<close> for every \<open>fb \<noteq> 0\<close> and every \<open>fa\<close> with
  \<open>fa * 256\<close> in the 32-bit signed range, and neither has a result for \<open>fb = 0\<close>.  For
  \<open>fa = -256\<close> (-1.0) and \<open>fb = 256\<close> (1.0) the scaled numerator \<open>-65536\<close> is in range,
  \<open>fxdiv64\<close> returns \<open>-256\<close> (-1.0) and \<open>fxdiv\<close> returns \<open>16776960\<close>.
\<close>

theorem fxdiv_negative_differs:
  "in_s32 (sint (- 256 :: FIXED) * 256) \<and>
   (256 :: FIXED) \<noteq> 0 \<and>
   fxdiv64 (- 256) 256 = Some (- 256) \<and>
   fxdiv (- 256) 256 = Some 16776960 \<and>
   fxdiv64 (- 256) 256 \<noteq> fxdiv (- 256) 256"
  by (simp add: fxdiv_def fxdiv64_def sdiv64_def FIX_SCALE_def FIX_SHIFT_def in_s32_def)

section \<open>Division by reciprocal multiplication\<close>

lemma pow2_plus_nonneg: "0 < a \<Longrightarrow> 0 \<le> (2 :: int) ^ fp + a - 1"
proof -
  have "0 \<le> (2 :: int) ^ fp"
    by simp
  moreover assume "0 < a"
  ultimately show ?thesis
    by linarith
qed

lemma FX_RECIPROCAL_pos:
  assumes "0 < a"
  shows "FX_RECIPROCAL a fp = Some ((2 ^ fp + a - 1) div a)"
proof -
  have "(2 ^ fp + a - 1) sdiv a = (2 ^ fp + a - 1) div a"
    using assms by (intro sdiv_nonneg pow2_plus_nonneg)
  then show ?thesis
    using assms by (simp add: FX_RECIPROCAL_def push_bit_eq_mult)
qed

lemma FX_RECIMUL_pos:
  assumes "0 \<le> x" and "0 < a"
  shows "FX_RECIMUL x a fp = Some (x * (2 ^ fp + a - 1) div (a * 2 ^ fp))"
proof -
  have "0 \<le> x * (2 ^ fp + a - 1)"
    using assms by (intro mult_nonneg_nonneg pow2_plus_nonneg)
  then have "(x * (2 ^ fp + a - 1)) sdiv a = x * (2 ^ fp + a - 1) div a"
    using assms by (simp add: sdiv_nonneg)
  then show ?thesis
    using assms by (simp add: FX_RECIMUL_def push_bit_eq_mult drop_bit_eq_div zdiv_zmult2_eq)
qed

text \<open>
  What the macro as written guarantees is the second documented rule,
  \<open>n > x * (a - 1)\<close> with \<open>n = 2^fp\<close>.
\<close>

lemma FX_RECIMUL_exact:
  assumes "0 \<le> x" and "0 < a" and "x * (a - 1) < 2 ^ fp"
  shows "FX_RECIMUL x a fp = Some (x div a)"
proof -
  define n :: int where "n = 2 ^ fp"
  define q where "q = x div a"
  define r where "r = x mod a"
  have n: "0 < n"
    by (simp add: n_def)
  have x: "x = a * q + r"
    by (simp add: q_def r_def)
  have r: "0 \<le> r" "r \<le> a - 1"
    using assms by (simp_all add: r_def)
  define s where "s = r * n + x * (a - 1)"
  have "r * n \<le> (a - 1) * n"
    using r n by (intro mult_right_mono) simp_all
  moreover have "x * (a - 1) < n"
    using assms by (simp add: n_def)
  ultimately have "s < (a - 1) * n + n"
    unfolding s_def by linarith
  then have s2: "s < a * n"
    by (simp add: algebra_simps)
  have "0 \<le> x * (a - 1)"
    using assms by simp
  moreover have "0 \<le> r * n"
    using r n by simp
  ultimately have s1: "0 \<le> s"
    by (simp add: s_def)
  have "x * (n + a - 1) = a * n * q + s"
    unfolding s_def by (subst (1 2) x) (simp add: algebra_simps)
  then have "x * (n + a - 1) div (a * n) = q"
    using s1 s2 by (rule int_div_pos_eq)
  then show ?thesis
    using assms by (simp add: FX_RECIMUL_pos n_def q_def)
qed

text \<open>
  The first documented rule, \<open>x < n / (m * a - n)\<close>, is the one of the product of \<open>x\<close>
  with the reciprocal \<open>m\<close> that \<open>FX_RECIPROCAL\<close> computes; it is stated here as
  \<open>x * (m * a - n) < n\<close>, which also covers \<open>m * a = n\<close>.
\<close>

lemma reciprocal_multiplication_exact:
  assumes "0 \<le> x" and "0 < a" and "FX_RECIPROCAL a fp = Some m"
    and "x * (m * a - 2 ^ fp) < 2 ^ fp"
  shows "drop_bit fp (x * m) = x div a"
proof -
  define n :: int where "n = 2 ^ fp"
  define q where "q = x div a"
  define r where "r = x mod a"
  define d where "d = m * a - n"
  have n: "0 < n"
    by (simp add: n_def)
  have x: "x = a * q + r"
    by (simp add: q_def r_def)
  have r: "0 \<le> r" "r \<le> a - 1"
    using assms by (simp_all add: r_def)
  have m: "m = (n + a - 1) div a"
    using assms by (simp add: FX_RECIPROCAL_pos n_def)
  have "m * a = n + a - 1 - (n + a - 1) mod a"
    by (simp add: m minus_mod_eq_div_mult)
  moreover have "0 \<le> (n + a - 1) mod a" "(n + a - 1) mod a \<le> a - 1"
    using assms by simp_all
  ultimately have d: "0 \<le> d" "d \<le> a - 1"
    by (simp_all add: d_def)
  have xd: "x * d < n"
    using assms by (simp add: d_def n_def)
  have ma: "m * a = n + d"
    by (simp add: d_def)
  define t where "t = x * m - n * q"
  have "a * t = x * (m * a) - a * n * q"
    by (simp add: t_def algebra_simps)
  also have "\<dots> = x * n + x * d - a * n * q"
    by (simp only: ma) (simp add: algebra_simps)
  also have "\<dots> = r * n + x * d"
    by (subst (1) x) (simp add: algebra_simps)
  finally have at: "a * t = r * n + x * d" .
  have "0 \<le> r * n + x * d"
    using r n d assms by simp
  then have "0 \<le> a * t"
    by (simp add: at)
  then have t1: "0 \<le> t"
    using assms by (simp add: zero_le_mult_iff)
  have "r * n \<le> (a - 1) * n"
    using r n by (intro mult_right_mono) simp_all
  then have "a * t < (a - 1) * n + n"
    using xd by (simp add: at)
  then have "a * t < a * n"
    by (simp add: algebra_simps)
  then have t2: "t < n"
    using assms by simp
  have "x * m = n * q + t"
    by (simp add: t_def)
  then have "x * m div n = q"
    using t1 t2 by (rule int_div_pos_eq)
  then show ?thesis
    by (simp add: drop_bit_eq_div n_def q_def)
qed

text \<open>
  Claim C2: for positive \<open>a\<close> and \<open>fp\<close> and every non-negative \<open>x\<close> below the documented
  bound \<open>2^fp / (m * a - 2^fp)\<close>, where \<open>m\<close> is the reciprocal \<open>(2^fp + a - 1) / a\<close>,
  \<open>FX_RECIMUL(x, a, fp)\<close> is the quotient \<open>x / a\<close>.  For \<open>a = 3\<close> and \<open>fp = 3\<close> the
  reciprocal is \<open>m = 3\<close> and the bound is \<open>8 / (9 - 8) = 8\<close>; \<open>x = 5\<close> is below it,
  \<open>5 / 3 = 1\<close>, and the macro yields \<open>(5 * 10 / 3) >> 3 = 2\<close>.  The product with the
  reciprocal, \<open>(5 * 3) >> 3\<close>, is 1.
\<close>

theorem FX_RECIMUL_misses_quotient:
  "FX_RECIPROCAL 3 3 = Some 3 \<and>
   (5 :: int) < 2 ^ 3 sdiv (3 * 3 - 2 ^ 3) \<and>
   FX_RECIMUL 5 3 3 = Some 2 \<and>
   (5 :: int) sdiv 3 = 1 \<and>
   drop_bit 3 (5 * 3 :: int) = 1"
  by (simp add: FX_RECIPROCAL_def FX_RECIMUL_def drop_bit_eq_div)

end
